theory Spec2Isabelle
  imports
    Complex_Main
    "HOL-Library.Char_ord"
    "HOL-Library.List_Lexorder"
    "HOL-Library.Product_Lexorder"
begin

section \<open>Column values\<close>

text \<open>
  The SALARY column and every column derived from it hold floating-point numbers.  The
  model keeps the special values of that arithmetic (the two infinities and NaN) and
  treats every finite value as an exact rational: rounding, overflow and the sign of zero
  are left out.  A cell that \<open>pd.to_numeric(..., errors="coerce")\<close> could not parse is
  \<open>NaN\<close>.
\<close>

datatype fval = Fin rat | PInf | NInf | NaN

fun is_finite :: "fval \<Rightarrow> bool" where
  "is_finite (Fin _) = True"
| "is_finite _ = False"

fun fneg :: "fval \<Rightarrow> fval" where
  "fneg (Fin a) = Fin (- a)"
| "fneg PInf = NInf"
| "fneg NInf = PInf"
| "fneg NaN = NaN"

fun fadd :: "fval \<Rightarrow> fval \<Rightarrow> fval" where
  "fadd NaN _ = NaN"
| "fadd _ NaN = NaN"
| "fadd (Fin a) (Fin b) = Fin (a + b)"
| "fadd (Fin _) PInf = PInf"
| "fadd (Fin _) NInf = NInf"
| "fadd PInf (Fin _) = PInf"
| "fadd NInf (Fin _) = NInf"
| "fadd PInf PInf = PInf"
| "fadd NInf NInf = NInf"
| "fadd PInf NInf = NaN"
| "fadd NInf PInf = NaN"

definition fsub :: "fval \<Rightarrow> fval \<Rightarrow> fval" where
  "fsub a b = fadd a (fneg b)"

text \<open>The sign of a value that is not NaN: \<open>-1\<close>, \<open>0\<close> or \<open>1\<close>.\<close>

fun fsign :: "fval \<Rightarrow> int" where
  "fsign (Fin a) = (if a < 0 then - 1 else if a = 0 then 0 else 1)"
| "fsign PInf = 1"
| "fsign NInf = - 1"
| "fsign NaN = 0"

fun fmul :: "fval \<Rightarrow> fval \<Rightarrow> fval" where
  "fmul NaN _ = NaN"
| "fmul _ NaN = NaN"
| "fmul (Fin a) (Fin b) = Fin (a * b)"
| "fmul a b =
     (let s = fsign a * fsign b
      in if s = 0 then NaN else if s < 0 then NInf else PInf)"

text \<open>
  Division as the array library performs it: a zero divisor raises nothing.  A non-zero
  dividend over zero is an infinity of the dividend's sign, zero over zero is NaN.
\<close>

fun fdiv :: "fval \<Rightarrow> fval \<Rightarrow> fval" where
  "fdiv NaN _ = NaN"
| "fdiv _ NaN = NaN"
| "fdiv (Fin a) (Fin b) =
     (if b = 0 then (if a = 0 then NaN else if a < 0 then NInf else PInf)
      else Fin (a / b))"
| "fdiv (Fin _) PInf = Fin 0"
| "fdiv (Fin _) NInf = Fin 0"
| "fdiv PInf (Fin b) = (if b < 0 then NInf else PInf)"
| "fdiv NInf (Fin b) = (if b < 0 then PInf else NInf)"
| "fdiv PInf PInf = NaN"
| "fdiv PInf NInf = NaN"
| "fdiv NInf PInf = NaN"
| "fdiv NInf NInf = NaN"

text \<open>Comparisons: every comparison with NaN is false.\<close>

fun flt :: "fval \<Rightarrow> fval \<Rightarrow> bool" where
  "flt NaN _ = False"
| "flt _ NaN = False"
| "flt (Fin a) (Fin b) = (a < b)"
| "flt NInf NInf = False"
| "flt NInf _ = True"
| "flt _ NInf = False"
| "flt PInf _ = False"
| "flt _ PInf = True"

definition fgt :: "fval \<Rightarrow> fval \<Rightarrow> bool" where
  "fgt a b = flt b a"

definition feq :: "fval \<Rightarrow> fval \<Rightarrow> bool" where
  "feq a b = (a \<noteq> NaN \<and> a = b)"

definition fle :: "fval \<Rightarrow> fval \<Rightarrow> bool" where
  "fle a b = (flt a b \<or> feq a b)"

section \<open>The wage table\<close>

text \<open>
  One row of the frame returned by \<open>load_data\<close>: REGION is a stripped string, YEAR a
  nullable integer (\<open>None\<close> is \<open>NA\<close>, a cell that did not parse), SALARY a float.
\<close>

record wage =
  REGION :: string
  YEAR :: "int option"
  SALARY :: fval

type_synonym frame = "wage list"

text \<open>\<open>str.upper()\<close>, on the ASCII letters.\<close>

definition upper_char :: "char \<Rightarrow> char" where
  "upper_char c =
     (if CHR ''a'' \<le> c \<and> c \<le> CHR ''z'' then char_of (of_char c - (32::nat)) else c)"

definition upper :: "string \<Rightarrow> string" where
  "upper s = map upper_char s"

definition is_indonesia :: "'a wage_scheme \<Rightarrow> bool" where
  "is_indonesia r = (upper (REGION r) = ''INDONESIA'')"

text \<open>
  Comparisons of the YEAR column with an integer.  A missing year compares as
  \<open>NA\<close>, which a boolean mask treats as False.
\<close>

definition year_eq :: "int \<Rightarrow> 'a wage_scheme \<Rightarrow> bool" where
  "year_eq y r = (case YEAR r of None \<Rightarrow> False | Some v \<Rightarrow> v = y)"

definition year_between :: "int \<Rightarrow> int \<Rightarrow> 'a wage_scheme \<Rightarrow> bool" where
  "year_between lo hi r = (case YEAR r of None \<Rightarrow> False | Some v \<Rightarrow> lo \<le> v \<and> v \<le> hi)"

definition isin :: "string list \<Rightarrow> 'a wage_scheme \<Rightarrow> bool" where
  "isin names r = (REGION r \<in> set names)"

section \<open>Sidebar filters\<close>

record selection =
  year_from :: int
  year_to :: int
  select_all :: bool
  multiselect :: "string list"
  include_indonesia :: bool
  top_bottom_n :: nat

definition prov_list :: "frame \<Rightarrow> string list" where
  "prov_list df = sort (remdups (map REGION (filter (\<lambda>r. \<not> is_indonesia r) df)))"

text \<open>
  \<open>selected_prov\<close> after line 110: the whole list when the box is ticked, the
  multiselect otherwise, and the whole list again when that is empty.
\<close>

definition selected_prov :: "frame \<Rightarrow> selection \<Rightarrow> string list" where
  "selected_prov df sel =
     (let chosen = (if select_all sel then prov_list df else multiselect sel)
      in if chosen = [] then prov_list df else chosen)"

subsection \<open>Year filter and the national and provincial frames\<close>

definition year_exact :: "int \<Rightarrow> frame \<Rightarrow> frame" where
  "year_exact y df = filter (year_eq y) df"

definition year_range :: "int \<Rightarrow> int \<Rightarrow> frame \<Rightarrow> frame" where
  "year_range lo hi df = filter (year_between lo hi) df"

definition df_year :: "frame \<Rightarrow> selection \<Rightarrow> frame" where
  "df_year df sel =
     (if year_from sel = year_to sel then year_exact (year_from sel) df
      else year_range (year_from sel) (year_to sel) df)"

definition df_national :: "frame \<Rightarrow> selection \<Rightarrow> frame" where
  "df_national df sel = filter is_indonesia (df_year df sel)"

definition df_prov :: "frame \<Rightarrow> selection \<Rightarrow> frame" where
  "df_prov df sel =
     filter (\<lambda>r. \<not> is_indonesia r) (filter (isin (selected_prov df sel)) (df_year df sel))"

subsection \<open>Input of the ranking by actual value\<close>

definition prov_filtered :: "frame \<Rightarrow> selection \<Rightarrow> frame" where
  "prov_filtered df sel =
     filter (\<lambda>r. year_between (year_from sel) (year_to sel) r
                 \<and> isin (selected_prov df sel @ [''INDONESIA'']) r) df"

subsection \<open>Ranking: \<open>nlargest\<close> and \<open>nsmallest\<close>\<close>

text \<open>
  The library's selection on one column with \<open>keep="first"\<close>: rows whose value is NaN
  are set aside, the \<open>n\<close> extreme rows of the rest are taken, most extreme first and the
  earlier row first among equal values, the NaN rows follow, and the result is cut to
  \<open>n\<close> rows.  \<open>asc\<close> is True for \<open>nsmallest\<close>.
\<close>

definition ahead :: "bool \<Rightarrow> fval \<Rightarrow> fval \<Rightarrow> bool" where
  "ahead asc a b = (if asc then fle a b else fle b a)"

fun pick :: "bool \<Rightarrow> ('r \<Rightarrow> fval) \<Rightarrow> 'r list \<Rightarrow> 'r option" where
  "pick asc col [] = None"
| "pick asc col (x # xs) =
     (case pick asc col xs of
        None \<Rightarrow> Some x
      | Some m \<Rightarrow> if ahead asc (col x) (col m) then Some x else Some m)"

fun select_n :: "bool \<Rightarrow> ('r \<Rightarrow> fval) \<Rightarrow> nat \<Rightarrow> 'r list \<Rightarrow> 'r list" where
  "select_n asc col 0 xs = []"
| "select_n asc col (Suc n) xs =
     (case pick asc col xs of
        None \<Rightarrow> []
      | Some m \<Rightarrow> m # select_n asc col n (remove1 m xs))"

definition select_frame :: "bool \<Rightarrow> nat \<Rightarrow> ('r \<Rightarrow> fval) \<Rightarrow> 'r list \<Rightarrow> 'r list" where
  "select_frame asc n col xs =
     take n (select_n asc col n (filter (\<lambda>x. col x \<noteq> NaN) xs) @ filter (\<lambda>x. col x = NaN) xs)"

definition nlargest :: "nat \<Rightarrow> ('r \<Rightarrow> fval) \<Rightarrow> 'r list \<Rightarrow> 'r list" where
  "nlargest n col xs = select_frame False n col xs"

definition nsmallest :: "nat \<Rightarrow> ('r \<Rightarrow> fval) \<Rightarrow> 'r list \<Rightarrow> 'r list" where
  "nsmallest n col xs = select_frame True n col xs"

text \<open>
  The ranking as the specification words it: sort the column (stable, NaN last in both
  directions, as \<open>sort_values\<close> places it) and keep the first \<open>n\<close> rows.
\<close>

definition goes_before :: "bool \<Rightarrow> ('r \<Rightarrow> fval) \<Rightarrow> 'r \<Rightarrow> 'r \<Rightarrow> bool" where
  "goes_before asc col x y = (col y = NaN \<or> ahead asc (col x) (col y))"

fun insert_row :: "bool \<Rightarrow> ('r \<Rightarrow> fval) \<Rightarrow> 'r \<Rightarrow> 'r list \<Rightarrow> 'r list" where
  "insert_row asc col x [] = [x]"
| "insert_row asc col x (y # ys) =
     (if goes_before asc col x y then x # y # ys else y # insert_row asc col x ys)"

definition sort_values :: "bool \<Rightarrow> ('r \<Rightarrow> fval) \<Rightarrow> 'r list \<Rightarrow> 'r list" where
  "sort_values asc col xs = foldr (insert_row asc col) xs []"

definition spec_top_n :: "nat \<Rightarrow> ('r \<Rightarrow> fval) \<Rightarrow> 'r list \<Rightarrow> 'r list" where
  "spec_top_n n col xs = take n (sort_values False col xs)"

definition spec_bottom_n :: "nat \<Rightarrow> ('r \<Rightarrow> fval) \<Rightarrow> 'r list \<Rightarrow> 'r list" where
  "spec_bottom_n n col xs = take n (sort_values True col xs)"

definition top_df :: "frame \<Rightarrow> selection \<Rightarrow> frame" where
  "top_df df sel = nlargest (top_bottom_n sel) SALARY (prov_filtered df sel)"

definition bot_df :: "frame \<Rightarrow> selection \<Rightarrow> frame" where
  "bot_df df sel = nsmallest (top_bottom_n sel) SALARY (prov_filtered df sel)"

section \<open>Year-over-year change\<close>

record growth_row = wage +
  PCT_CHANGE :: fval
  NOMINAL_CHANGE :: fval

definition growth_filtered :: "frame \<Rightarrow> selection \<Rightarrow> frame" where
  "growth_filtered df sel =
     (let lo = year_from sel - 1; hi = year_to sel;
          base = filter (\<lambda>r. year_between lo hi r \<and> isin (selected_prov df sel) r) df;
          indo_data = filter (\<lambda>r. is_indonesia r \<and> year_between lo hi r) df
      in if include_indonesia sel then base @ indo_data else base)"

text \<open>\<open>sort_values(["REGION", "YEAR"])\<close>: by region, then by year, a missing year last.\<close>

definition year_key :: "'a wage_scheme \<Rightarrow> nat \<times> int" where
  "year_key r = (case YEAR r of None \<Rightarrow> (1, 0) | Some y \<Rightarrow> (0, y))"

definition sort_region_year :: "frame \<Rightarrow> frame" where
  "sort_region_year rows = sort_key (\<lambda>r. (REGION r, year_key r)) rows"

text \<open>
  \<open>groupby("REGION")["SALARY"].pct_change() * 100\<close> and \<open>.diff()\<close>, in one pass over the
  frame.  \<open>seen\<close> maps a region to the salary of its latest row so far; the first row of a
  group is compared with the NaN that \<open>shift\<close> puts before it.  \<open>pct_change\<close> is
  \<open>value / previous - 1\<close>.
\<close>

definition pct_change :: "fval \<Rightarrow> fval \<Rightarrow> fval" where
  "pct_change cur prev = fmul (fsub (fdiv cur prev) (Fin 1)) (Fin 100)"

definition diff :: "fval \<Rightarrow> fval \<Rightarrow> fval" where
  "diff cur prev = fsub cur prev"

fun changes :: "(string \<Rightarrow> fval option) \<Rightarrow> frame \<Rightarrow> growth_row list" where
  "changes seen [] = []"
| "changes seen (r # rs) =
     (let prev = (case seen (REGION r) of None \<Rightarrow> NaN | Some p \<Rightarrow> p)
      in \<lparr>REGION = REGION r, YEAR = YEAR r, SALARY = SALARY r,
          PCT_CHANGE = pct_change (SALARY r) prev,
          NOMINAL_CHANGE = diff (SALARY r) prev\<rparr>
         # changes (seen(REGION r \<mapsto> SALARY r)) rs)"

definition growth_table :: "frame \<Rightarrow> selection \<Rightarrow> growth_row list" where
  "growth_table df sel = changes Map.empty (sort_region_year (growth_filtered df sel))"

definition year_ge :: "int \<Rightarrow> 'a wage_scheme \<Rightarrow> bool" where
  "year_ge lo r = (case YEAR r of None \<Rightarrow> False | Some v \<Rightarrow> lo \<le> v)"

text \<open>\<open>pct_df\<close>: rows from \<open>year_from\<close> on whose two change columns are both present.\<close>

definition pct_df :: "frame \<Rightarrow> selection \<Rightarrow> growth_row list" where
  "pct_df df sel =
     filter (\<lambda>g. PCT_CHANGE g \<noteq> NaN \<and> NOMINAL_CHANGE g \<noteq> NaN)
       (filter (year_ge (year_from sel)) (growth_table df sel))"

section \<open>Heatmap\<close>

definition heatmap_regions :: "frame \<Rightarrow> selection \<Rightarrow> string list" where
  "heatmap_regions df sel =
     (if include_indonesia sel then selected_prov df sel @ [''INDONESIA'']
      else selected_prov df sel)"

definition df_heat :: "frame \<Rightarrow> selection \<Rightarrow> frame" where
  "df_heat df sel = filter (isin (heatmap_regions df sel)) (df_year df sel)"

text \<open>
  \<open>pivot_table(index="REGION", columns="YEAR", values="SALARY", aggfunc="mean").fillna(0)\<close>.
  The rows are grouped by (region, year); the mean of a group skips NaN and is NaN when
  nothing is left; a group whose mean is NaN is dropped; the remaining groups are spread
  into a region by year matrix, and every cell without a group is filled with 0.
\<close>

definition cell_salaries :: "frame \<Rightarrow> string \<Rightarrow> int \<Rightarrow> fval list" where
  "cell_salaries rows r y = map SALARY (filter (\<lambda>w. REGION w = r \<and> YEAR w = Some y) rows)"

definition mean_skipna :: "fval list \<Rightarrow> fval" where
  "mean_skipna vs =
     (let known = filter (\<lambda>v. v \<noteq> NaN) vs
      in if known = [] then NaN
         else fdiv (foldl fadd (Fin 0) known) (Fin (of_nat (length known))))"

fun group_keys :: "frame \<Rightarrow> (string \<times> int) list" where
  "group_keys [] = []"
| "group_keys (w # ws) =
     (case YEAR w of None \<Rightarrow> group_keys ws | Some y \<Rightarrow> (REGION w, y) # group_keys ws)"

definition agged :: "frame \<Rightarrow> ((string \<times> int) \<times> fval) list" where
  "agged rows =
     filter (\<lambda>(k, m). m \<noteq> NaN)
       (map (\<lambda>(r, y). ((r, y), mean_skipna (cell_salaries rows r y)))
            (remdups (group_keys rows)))"

definition fillna0 :: "fval option \<Rightarrow> fval" where
  "fillna0 c = (case c of None \<Rightarrow> Fin 0 | Some v \<Rightarrow> v)"

definition heat_cell :: "frame \<Rightarrow> string \<Rightarrow> int \<Rightarrow> fval" where
  "heat_cell rows r y = fillna0 (map_of (agged rows) (r, y))"

record heat_frame =
  heat_index :: "string list"
  heat_columns :: "int list"
  heat_values :: "fval list list"

definition pivot_table :: "frame \<Rightarrow> heat_frame" where
  "pivot_table rows =
     (let idx = sort (remdups (map (fst \<circ> fst) (agged rows)));
          cols = sort (remdups (map (snd \<circ> fst) (agged rows)))
      in \<lparr>heat_index = idx, heat_columns = cols,
          heat_values = map (\<lambda>r. map (heat_cell rows r) cols) idx\<rparr>)"

definition heat_data :: "frame \<Rightarrow> selection \<Rightarrow> heat_frame option" where
  "heat_data df sel =
     (if df_heat df sel = [] then None else Some (pivot_table (df_heat df sel)))"

section \<open>Gap and ratio to the national row\<close>

datatype status = Above_National_Average | Equal_to_National_Average | Below_National_Average

record merged_row = wage +
  SALARY_NATIONAL :: fval

record gap_row = merged_row +
  GAP :: fval
  GAP_STATUS :: status

record ratio_row = merged_row +
  RATIO :: fval
  RATIO_STATUS :: status

text \<open>
  \<open>left.merge(right[["YEAR", "SALARY"]], on="YEAR", how="left", suffixes=("", "_NATIONAL"))\<close>:
  every left row once per right row of its year, and once with a NaN national salary
  when the right frame has no row of that year.
\<close>

definition merge_left :: "frame \<Rightarrow> frame \<Rightarrow> merged_row list" where
  "merge_left left right =
     concat (map (\<lambda>l.
       (let ms = filter (\<lambda>n. YEAR n = YEAR l) right
        in if ms = []
           then [\<lparr>REGION = REGION l, YEAR = YEAR l, SALARY = SALARY l, SALARY_NATIONAL = NaN\<rparr>]
           else map (\<lambda>n. \<lparr>REGION = REGION l, YEAR = YEAR l, SALARY = SALARY l,
                           SALARY_NATIONAL = SALARY n\<rparr>) ms)) left)"

definition gap_status :: "fval \<Rightarrow> status" where
  "gap_status x =
     (if fgt x (Fin 0) then Above_National_Average
      else if feq x (Fin 0) then Equal_to_National_Average
      else Below_National_Average)"

definition ratio_status :: "fval \<Rightarrow> status" where
  "ratio_status x =
     (if fgt x (Fin 100) then Above_National_Average
      else if feq x (Fin 100) then Equal_to_National_Average
      else Below_National_Average)"

definition add_gap :: "merged_row \<Rightarrow> gap_row" where
  "add_gap m =
     (let g = fsub (SALARY m) (SALARY_NATIONAL m)
      in \<lparr>REGION = REGION m, YEAR = YEAR m, SALARY = SALARY m,
          SALARY_NATIONAL = SALARY_NATIONAL m, GAP = g, GAP_STATUS = gap_status g\<rparr>)"

definition add_ratio :: "merged_row \<Rightarrow> ratio_row" where
  "add_ratio m =
     (let q = fmul (fdiv (SALARY m) (SALARY_NATIONAL m)) (Fin 100)
      in \<lparr>REGION = REGION m, YEAR = YEAR m, SALARY = SALARY m,
          SALARY_NATIONAL = SALARY_NATIONAL m, RATIO = q, RATIO_STATUS = ratio_status q\<rparr>)"

text \<open>The two inputs of both stages (lines 579 to 580 and 731 to 732).\<close>

definition df_selected :: "frame \<Rightarrow> selection \<Rightarrow> frame" where
  "df_selected df sel = filter (isin (selected_prov df sel)) (df_year df sel)"

definition df_national_avg :: "frame \<Rightarrow> selection \<Rightarrow> frame" where
  "df_national_avg df sel = filter is_indonesia (df_year df sel)"

text \<open>
  \<open>df_gap\<close> and \<open>df_ratio\<close> after their \<open>if ... else\<close>: \<open>None\<close> when the branch that
  prints "No data" was taken, so that the frame was left without its new columns.
\<close>

definition df_gap :: "frame \<Rightarrow> selection \<Rightarrow> gap_row list option" where
  "df_gap df sel =
     (if df_selected df sel = [] \<or> df_national_avg df sel = [] then None
      else Some (map add_gap (merge_left (df_selected df sel) (df_national_avg df sel))))"

definition df_ratio :: "frame \<Rightarrow> selection \<Rightarrow> ratio_row list option" where
  "df_ratio df sel =
     (if df_selected df sel = [] \<or> df_national_avg df sel = [] then None
      else Some (map add_ratio (merge_left (df_selected df sel) (df_national_avg df sel))))"

section \<open>The script, stage by stage\<close>

text \<open>
  One run of the script from the year filter on.  A stage that prints a notice instead
  of its output is \<open>No_Data\<close>; \<open>st.stop()\<close> ends the run as \<open>Stopped\<close>; an exception
  ends it as \<open>Raised\<close>.  A name that is assigned in one branch only is an \<open>option\<close>:
  \<open>None\<close> when the run did not pass through the assignment, so that reading it raises
  \<open>NameError\<close>.  The KPI cards, the map and the formatting of cells are not part of the
  model.
\<close>

datatype py_error = NameError string | KeyError string

datatype 'a panel = No_Data | Shown 'a

record dashboard =
  actual_ranking :: "frame \<times> frame"
  growth_chart :: "growth_row list panel"
  pct_ranking :: "(growth_row list \<times> growth_row list) panel"
  heatmap :: "heat_frame panel"
  gap_chart :: "gap_row list panel"
  gap_ranking :: "(gap_row list \<times> gap_row list) panel"
  ratio_chart :: "ratio_row list panel"
  ratio_ranking :: "ratio_row list \<times> ratio_row list"

datatype outcome = Stopped | Raised py_error | Rendered dashboard

text \<open>Lines 376 to 384: \<open>pct_df\<close> is assigned in the \<open>else\<close> branch only.\<close>

definition pct_df_name :: "frame \<Rightarrow> selection \<Rightarrow> growth_row list option" where
  "pct_df_name df sel = (if growth_filtered df sel = [] then None else Some (pct_df df sel))"

definition growth_stage :: "frame \<Rightarrow> selection \<Rightarrow> growth_row list panel" where
  "growth_stage df sel =
     (case pct_df_name df sel of
        None \<Rightarrow> No_Data
      | Some t \<Rightarrow> if t = [] then No_Data else Shown t)"

text \<open>Lines 441 to 447: \<open>pct_df.copy()\<close> is read whatever the branch taken above.\<close>

definition pct_ranking_stage ::
  "frame \<Rightarrow> selection \<Rightarrow> py_error + (growth_row list \<times> growth_row list) panel" where
  "pct_ranking_stage df sel =
     (case pct_df_name df sel of
        None \<Rightarrow> Inl (NameError ''pct_df'')
      | Some t \<Rightarrow>
          if t = [] then Inr No_Data
          else Inr (Shown (nlargest (top_bottom_n sel) PCT_CHANGE t,
                           nsmallest (top_bottom_n sel) PCT_CHANGE t)))"

definition heatmap_stage :: "frame \<Rightarrow> selection \<Rightarrow> heat_frame panel" where
  "heatmap_stage df sel = (case heat_data df sel of None \<Rightarrow> No_Data | Some h \<Rightarrow> Shown h)"

definition gap_stage :: "frame \<Rightarrow> selection \<Rightarrow> gap_row list panel" where
  "gap_stage df sel = (case df_gap df sel of None \<Rightarrow> No_Data | Some g \<Rightarrow> Shown g)"

text \<open>
  Lines 658 to 663: the year filter is applied to \<open>df_gap\<close> as the stage before left it.
  When that stage printed "No data" the frame has no GAP column, and ranking a non-empty
  frame on it raises \<open>KeyError\<close>.
\<close>

definition gap_ranking_stage ::
  "frame \<Rightarrow> selection \<Rightarrow> py_error + (gap_row list \<times> gap_row list) panel" where
  "gap_ranking_stage df sel =
     (case df_gap df sel of
        None \<Rightarrow>
          if filter (year_between (year_from sel) (year_to sel)) (df_selected df sel) = []
          then Inr No_Data else Inl (KeyError ''GAP'')
      | Some g \<Rightarrow>
          (let df_gap_filtered = filter (year_between (year_from sel) (year_to sel)) g
           in if df_gap_filtered = [] then Inr No_Data
              else Inr (Shown (nlargest (top_bottom_n sel) GAP df_gap_filtered,
                               nsmallest (top_bottom_n sel) GAP df_gap_filtered))))"

definition ratio_stage :: "frame \<Rightarrow> selection \<Rightarrow> ratio_row list panel" where
  "ratio_stage df sel = (case df_ratio df sel of None \<Rightarrow> No_Data | Some q \<Rightarrow> Shown q)"

text \<open>
  Lines 822 to 827: \<open>top_ratio\<close> and \<open>bot_ratio\<close> are assigned in the \<open>else\<close> branch only.
\<close>

definition top_ratio_name ::
  "frame \<Rightarrow> selection \<Rightarrow> py_error + (ratio_row list \<times> ratio_row list) option" where
  "top_ratio_name df sel =
     (case df_ratio df sel of
        None \<Rightarrow>
          if filter (year_between (year_from sel) (year_to sel)) (df_selected df sel) = []
          then Inr None else Inl (KeyError ''RATIO'')
      | Some q \<Rightarrow>
          (let df_ratio_filtered = filter (year_between (year_from sel) (year_to sel)) q
           in if df_ratio_filtered = [] then Inr None
              else Inr (Some (nlargest (top_bottom_n sel) RATIO df_ratio_filtered,
                              nsmallest (top_bottom_n sel) RATIO df_ratio_filtered))))"

text \<open>Lines 833 to 914 read \<open>top_ratio\<close> outside the \<open>else\<close> branch.\<close>

definition ratio_ranking_stage ::
  "frame \<Rightarrow> selection \<Rightarrow> py_error + (ratio_row list \<times> ratio_row list)" where
  "ratio_ranking_stage df sel =
     (case top_ratio_name df sel of
        Inl e \<Rightarrow> Inl e
      | Inr None \<Rightarrow> Inl (NameError ''top_ratio'')
      | Inr (Some p) \<Rightarrow> Inr p)"

definition run :: "frame \<Rightarrow> selection \<Rightarrow> outcome" where
  "run df sel =
     (if df_year df sel = [] then Stopped
      else if prov_filtered df sel = [] then Stopped
      else
        case pct_ranking_stage df sel of
          Inl e \<Rightarrow> Raised e
        | Inr pr \<Rightarrow>
            (case gap_ranking_stage df sel of
               Inl e \<Rightarrow> Raised e
             | Inr gr \<Rightarrow>
                 (case ratio_ranking_stage df sel of
                    Inl e \<Rightarrow> Raised e
                  | Inr rr \<Rightarrow>
                      Rendered \<lparr>actual_ranking = (top_df df sel, bot_df df sel),
                                growth_chart = growth_stage df sel,
                                pct_ranking = pr,
                                heatmap = heatmap_stage df sel,
                                gap_chart = gap_stage df sel,
                                gap_ranking = gr,
                                ratio_chart = ratio_stage df sel,
                                ratio_ranking = rr\<rparr>)))"

section \<open>Sample inputs\<close>

text \<open>The scenario of the specification, with one more province.\<close>

definition scenario :: frame where
  "scenario =
     [\<lparr>REGION = ''INDONESIA'', YEAR = Some 2023, SALARY = Fin 2800000\<rparr>,
      \<lparr>REGION = ''INDONESIA'', YEAR = Some 2024, SALARY = Fin 3000000\<rparr>,
      \<lparr>REGION = ''Jakarta'', YEAR = Some 2023, SALARY = Fin 4900000\<rparr>,
      \<lparr>REGION = ''Jakarta'', YEAR = Some 2024, SALARY = Fin 5100000\<rparr>,
      \<lparr>REGION = ''Bali'', YEAR = Some 2024, SALARY = Fin 2700000\<rparr>]"

definition wide :: selection where
  "wide = \<lparr>year_from = 2023, year_to = 2024, select_all = False,
           multiselect = [''Jakarta'', ''Bali''], include_indonesia = True, top_bottom_n = 2\<rparr>"

definition narrow :: selection where
  "narrow = \<lparr>year_from = 2024, year_to = 2024, select_all = False,
             multiselect = [''Jakarta''], include_indonesia = True, top_bottom_n = 2\<rparr>"



definition zero_salary :: frame where
  "zero_salary =
     [\<lparr>REGION = ''INDONESIA'', YEAR = Some 2022, SALARY = Fin 0\<rparr>,
      \<lparr>REGION = ''Bali'', YEAR = Some 2021, SALARY = Fin 0\<rparr>,
      \<lparr>REGION = ''Bali'', YEAR = Some 2022, SALARY = Fin 50\<rparr>]"

definition year_2022 :: selection where
  "year_2022 = \<lparr>year_from = 2022, year_to = 2022, select_all = True,
                multiselect = [], include_indonesia = True, top_bottom_n = 1\<rparr>"


definition jakarta_2024 :: wage where
  "jakarta_2024 = \<lparr>REGION = ''Jakarta'', YEAR = Some 2024, SALARY = Fin 5100000\<rparr>"

definition indonesia_2024 :: wage where
  "indonesia_2024 = \<lparr>REGION = ''INDONESIA'', YEAR = Some 2024, SALARY = Fin 3000000\<rparr>"


text \<open>
  The salaries of the change example, a frame whose only province has no row in the year
  range, a frame without national rows, and the regions of the ranking example.
\<close>

definition three_years :: frame where
  "three_years =
     [\<lparr>REGION = ''Riau'', YEAR = Some 2020, SALARY = Fin 100\<rparr>,
      \<lparr>REGION = ''Riau'', YEAR = Some 2021, SALARY = Fin 110\<rparr>,
      \<lparr>REGION = ''Riau'', YEAR = Some 2022, SALARY = Fin 121\<rparr>]"

definition last_two :: selection where
  "last_two = \<lparr>year_from = 2021, year_to = 2022, select_all = True,
               multiselect = [], include_indonesia = True, top_bottom_n = 1\<rparr>"

definition old_province :: frame where
  "old_province =
     [\<lparr>REGION = ''INDONESIA'', YEAR = Some 2022, SALARY = Fin 100\<rparr>,
      \<lparr>REGION = ''Bali'', YEAR = Some 2020, SALARY = Fin 50\<rparr>]"

definition no_national :: frame where
  "no_national = [\<lparr>REGION = ''Bali'', YEAR = Some 2022, SALARY = Fin 50\<rparr>]"

definition year_2022_provinces_only :: selection where
  "year_2022_provinces_only = \<lparr>year_from = 2022, year_to = 2022, select_all = True,
                multiselect = [], include_indonesia = False, top_bottom_n = 1\<rparr>"

definition abcd :: frame where
  "abcd = [\<lparr>REGION = ''A'', YEAR = Some 2024, SALARY = Fin 5\<rparr>,
           \<lparr>REGION = ''B'', YEAR = Some 2024, SALARY = Fin 3\<rparr>,
           \<lparr>REGION = ''C'', YEAR = Some 2024, SALARY = Fin 8\<rparr>,
           \<lparr>REGION = ''D'', YEAR = Some 2024, SALARY = Fin 1\<rparr>]"

text \<open>A frame with two records for one region and year.\<close>

definition duplicated :: frame where
  "duplicated =
     [\<lparr>REGION = ''Bali'', YEAR = Some 2023, SALARY = Fin 10\<rparr>,
      \<lparr>REGION = ''Bali'', YEAR = Some 2023, SALARY = Fin 20\<rparr>,
      \<lparr>REGION = ''Riau'', YEAR = Some 2024, SALARY = Fin 7\<rparr>]"

definition years_2023_2024 :: selection where
  "years_2023_2024 = \<lparr>year_from = 2023, year_to = 2024, select_all = True,
               multiselect = [], include_indonesia = True, top_bottom_n = 1\<rparr>"

text \<open>
  The two rows of the zero-salary frame that meet in 2022, two selections with every
  province ticked, and two frames for the stages that find nothing: one whose selected
  province has no row near the year range, one without any national row.
\<close>

definition zero_region :: wage where
  "zero_region = \<lparr>REGION = ''Bali'', YEAR = Some 2022, SALARY = Fin 50\<rparr>"

definition zero_national :: wage where
  "zero_national = \<lparr>REGION = ''INDONESIA'', YEAR = Some 2022, SALARY = Fin 0\<rparr>"

definition all_wide :: selection where
  "all_wide = \<lparr>year_from = 2023, year_to = 2024, select_all = True,
               multiselect = [], include_indonesia = True, top_bottom_n = 2\<rparr>"

definition all_narrow :: selection where
  "all_narrow = \<lparr>year_from = 2024, year_to = 2024, select_all = True,
                 multiselect = [], include_indonesia = True, top_bottom_n = 2\<rparr>"

definition stale_selection :: frame where
  "stale_selection =
     [\<lparr>REGION = ''INDONESIA'', YEAR = Some 2022, SALARY = Fin 100\<rparr>,
      \<lparr>REGION = ''Bali'', YEAR = Some 2022, SALARY = Fin 60\<rparr>,
      \<lparr>REGION = ''Riau'', YEAR = Some 2020, SALARY = Fin 50\<rparr>]"

definition riau_2022_provinces_only :: selection where
  "riau_2022_provinces_only = \<lparr>year_from = 2022, year_to = 2022, select_all = False,
       multiselect = [''Riau''], include_indonesia = False, top_bottom_n = 1\<rparr>"

definition riau_2022 :: selection where
  "riau_2022 = \<lparr>year_from = 2022, year_to = 2022, select_all = False,
       multiselect = [''Riau''], include_indonesia = True, top_bottom_n = 1\<rparr>"

definition provinces_only :: frame where
  "provinces_only =
     [\<lparr>REGION = ''Bali'', YEAR = Some 2021, SALARY = Fin 40\<rparr>,
      \<lparr>REGION = ''Bali'', YEAR = Some 2022, SALARY = Fin 50\<rparr>,
      \<lparr>REGION = ''Riau'', YEAR = Some 2022, SALARY = Fin 45\<rparr>]"

section \<open>Auxiliary functions of the proofs\<close>

text \<open>
  The change columns of one region group computed on their own: \<open>p\<close> is the salary of
  the row before, NaN for the first row.  \<open>prev_of\<close> reads that salary from \<open>seen\<close>.
\<close>

definition change_row :: "wage \<Rightarrow> fval \<Rightarrow> growth_row" where
  "change_row w p = \<lparr>REGION = REGION w, YEAR = YEAR w, SALARY = SALARY w,
                     PCT_CHANGE = pct_change (SALARY w) p, NOMINAL_CHANGE = diff (SALARY w) p\<rparr>"

fun group_changes :: "fval \<Rightarrow> frame \<Rightarrow> growth_row list" where
  "group_changes p [] = []"
| "group_changes p (w # ws) = change_row w p # group_changes (SALARY w) ws"

definition prev_of :: "(string \<Rightarrow> fval option) \<Rightarrow> string \<Rightarrow> fval" where
  "prev_of seen r = (case seen r of None \<Rightarrow> NaN | Some p \<Rightarrow> p)"

section \<open>Filters\<close>

lemma year_eq_between: "(year_eq y :: wage \<Rightarrow> bool) = year_between y y"
  by (rule ext) (auto simp: year_eq_def year_between_def split: option.splits)

lemma df_year_range: "df_year df sel = year_range (year_from sel) (year_to sel) df"
  by (simp add: df_year_def year_exact_def year_range_def year_eq_between)

lemma length_filter_mono:
  "(\<And>x. x \<in> set xs \<Longrightarrow> P x \<Longrightarrow> Q x) \<Longrightarrow> length (filter P xs) \<le> length (filter Q xs)"
  by (induction xs) auto

text \<open>
  C7.  Filtering on one year \<open>y\<close> through the equality branch gives the same rows, in the
  same order, as the inclusive range filter evaluated on \<open>[y, y]\<close>; the script takes the
  equality branch exactly then, and the rows kept are those whose year is \<open>y\<close>.
\<close>

theorem exact_year_is_range:
  "year_exact y df = year_range y y df
   \<and> df_year df (sel\<lparr>year_from := y, year_to := y\<rparr>) = year_range y y df
   \<and> set (year_range y y df) = {r \<in> set df. YEAR r = Some y}"
  by (auto simp: df_year_def year_exact_def year_range_def year_eq_between
                 year_between_def split: option.splits)

text \<open>
  C8.  When the year range shrinks to a sub-interval and the regions selected afterwards
  are among the regions selected before (\<open>selected_prov\<close>, which is the whole list when
  every province is ticked or none is chosen), \<open>df_year\<close>, \<open>df_national\<close> and
  \<open>df_prov\<close> have no more rows than before.
\<close>

theorem narrowing_never_adds_rows:
  assumes yf: "year_from sel \<le> year_from sel'" and yt: "year_to sel' \<le> year_to sel"
    and sub: "set (selected_prov df sel') \<subseteq> set (selected_prov df sel)"
  shows "length (df_year df sel') \<le> length (df_year df sel)
       \<and> length (df_national df sel') \<le> length (df_national df sel)
       \<and> length (df_prov df sel') \<le> length (df_prov df sel)"
proof -
  have yb: "year_between (year_from sel') (year_to sel') r
            \<Longrightarrow> year_between (year_from sel) (year_to sel) r" for r :: wage
    using yf yt by (auto simp: year_between_def split: option.splits)
  have 1: "length (df_year df sel') \<le> length (df_year df sel)"
    unfolding df_year_range year_range_def by (rule length_filter_mono) (rule yb)
  have 2: "length (df_national df sel') \<le> length (df_national df sel)"
    unfolding df_national_def df_year_range year_range_def filter_filter
    by (rule length_filter_mono) (auto dest: yb)
  have 3: "length (df_prov df sel') \<le> length (df_prov df sel)"
    unfolding df_prov_def df_year_range year_range_def filter_filter
    by (rule length_filter_mono) (use sub in \<open>auto dest: yb simp: isin_def\<close>)
  from 1 2 3 show ?thesis by simp
qed

theorem narrowing_never_adds_rows_witness:
  "set (selected_prov scenario narrow) \<subseteq> set (selected_prov scenario wide)
   \<and> length (df_year scenario narrow) \<le> length (df_year scenario wide)
   \<and> length (df_national scenario narrow) \<le> length (df_national scenario wide)
   \<and> length (df_prov scenario narrow) \<le> length (df_prov scenario wide)
   \<and> length (df_prov scenario narrow) = 1 \<and> length (df_prov scenario wide) = 3
   \<and> set (selected_prov scenario all_narrow) \<subseteq> set (selected_prov scenario all_wide)
   \<and> length (df_year scenario all_narrow) \<le> length (df_year scenario all_wide)
   \<and> length (df_national scenario all_narrow) \<le> length (df_national scenario all_wide)
   \<and> length (df_prov scenario all_narrow) \<le> length (df_prov scenario all_wide)
   \<and> length (df_year scenario all_narrow) = 3 \<and> length (df_year scenario all_wide) = 5"
proof -
  have s1: "set (selected_prov scenario narrow) \<subseteq> set (selected_prov scenario wide)"
    by (simp add: selected_prov_def narrow_def wide_def)
  have s2: "set (selected_prov scenario all_narrow) \<subseteq> set (selected_prov scenario all_wide)"
    by (simp add: selected_prov_def all_narrow_def all_wide_def)
  have y1: "year_from wide \<le> year_from narrow" "year_to narrow \<le> year_to wide"
    by (simp_all add: narrow_def wide_def)
  have y2: "year_from all_wide \<le> year_from all_narrow" "year_to all_narrow \<le> year_to all_wide"
    by (simp_all add: all_narrow_def all_wide_def)
  have e: "length (df_prov scenario narrow) = 1 \<and> length (df_prov scenario wide) = 3
     \<and> length (df_year scenario all_narrow) = 3 \<and> length (df_year scenario all_wide) = 5"
    by code_simp
  from narrowing_never_adds_rows[OF y1 s1] narrowing_never_adds_rows[OF y2 s2] s1 s2 e
  show ?thesis by blast
qed

text \<open>
  C9.  The frame ranked by actual value holds every row of the year range whose region
  is exactly INDONESIA, whatever the selection says; the flag \<open>include_indonesia\<close> changes
  neither that frame nor the two rankings taken from it, nor the gap and ratio tables.
\<close>

theorem ranking_input_keeps_national:
  "filter (\<lambda>r. REGION r = ''INDONESIA'') (prov_filtered df sel)
     = filter (\<lambda>r. REGION r = ''INDONESIA'' \<and> year_between (year_from sel) (year_to sel) r) df
   \<and> prov_filtered df (sel\<lparr>include_indonesia := b\<rparr>) = prov_filtered df sel
   \<and> top_df df (sel\<lparr>include_indonesia := b\<rparr>) = top_df df sel
   \<and> bot_df df (sel\<lparr>include_indonesia := b\<rparr>) = bot_df df sel
   \<and> df_gap df (sel\<lparr>include_indonesia := b\<rparr>) = df_gap df sel
   \<and> df_ratio df (sel\<lparr>include_indonesia := b\<rparr>) = df_ratio df sel"
proof -
  have a: "filter (\<lambda>r. REGION r = ''INDONESIA'') (prov_filtered df sel)
     = filter (\<lambda>r. REGION r = ''INDONESIA'' \<and> year_between (year_from sel) (year_to sel) r) df"
    unfolding prov_filtered_def filter_filter
    by (rule filter_cong) (auto simp: isin_def)
  have s: "selected_prov df (sel\<lparr>include_indonesia := b\<rparr>) = selected_prov df sel"
    by (simp add: selected_prov_def)
  have p: "prov_filtered df (sel\<lparr>include_indonesia := b\<rparr>) = prov_filtered df sel"
    by (simp add: prov_filtered_def s)
  have y: "df_year df (sel\<lparr>include_indonesia := b\<rparr>) = df_year df sel"
    by (simp add: df_year_def)
  have g: "df_gap df (sel\<lparr>include_indonesia := b\<rparr>) = df_gap df sel"
    by (simp add: df_gap_def df_selected_def df_national_avg_def s y)
  have q: "df_ratio df (sel\<lparr>include_indonesia := b\<rparr>) = df_ratio df sel"
    by (simp add: df_ratio_def df_selected_def df_national_avg_def s y)
  show ?thesis using a p g q by (simp add: top_df_def bot_df_def)
qed

section \<open>Gap and ratio\<close>

lemma merge_left_matched:
  assumes "l \<in> set left" "n \<in> set right" "YEAR n = YEAR l"
  shows "\<lparr>REGION = REGION l, YEAR = YEAR l, SALARY = SALARY l, SALARY_NATIONAL = SALARY n\<rparr>
           \<in> set (merge_left left right)"
proof -
  define cell where "cell = (\<lambda>l::wage.
       (let ms = filter (\<lambda>n. YEAR n = YEAR l) right
        in if ms = []
           then [\<lparr>REGION = REGION l, YEAR = YEAR l, SALARY = SALARY l, SALARY_NATIONAL = NaN\<rparr>]
           else map (\<lambda>n. \<lparr>REGION = REGION l, YEAR = YEAR l, SALARY = SALARY l,
                           SALARY_NATIONAL = SALARY n\<rparr>) ms))"
  have s: "merge_left left right = concat (map cell left)"
    by (simp add: merge_left_def cell_def)
  have ne: "filter (\<lambda>m. YEAR m = YEAR l) right \<noteq> []"
    using assms(2,3) by (auto simp: filter_empty_conv)
  have "\<lparr>REGION = REGION l, YEAR = YEAR l, SALARY = SALARY l, SALARY_NATIONAL = SALARY n\<rparr>
          \<in> set (cell l)"
    using ne assms(2,3) by (simp add: cell_def image_iff) blast
  then show ?thesis using assms(1) by (auto simp: s)
qed

lemma gap_status_cases:
  "(fgt x (Fin 0) \<longrightarrow> gap_status x = Above_National_Average)
   \<and> (feq x (Fin 0) \<longrightarrow> gap_status x = Equal_to_National_Average)
   \<and> (flt x (Fin 0) \<longrightarrow> gap_status x = Below_National_Average)"
  by (cases x) (auto simp: gap_status_def fgt_def feq_def)

lemma ratio_status_cases:
  "(fgt x (Fin 100) \<longrightarrow> ratio_status x = Above_National_Average)
   \<and> (feq x (Fin 100) \<longrightarrow> ratio_status x = Equal_to_National_Average)
   \<and> (flt x (Fin 100) \<longrightarrow> ratio_status x = Below_National_Average)"
  by (cases x) (auto simp: ratio_status_def fgt_def feq_def)

text \<open>
  C5.  A selected region row and a national row of the same year give a row of the gap
  table whose GAP is the region salary minus the national salary, with status Above when
  the gap is greater than 0, Equal when it is 0 and Below when it is less than 0, and a
  row of the ratio table whose RATIO is the region salary divided by the national salary
  times 100, classified in the same way around 100.
\<close>

theorem gap_and_ratio_of_matched_row:
  assumes l: "l \<in> set (df_selected df sel)" and n: "n \<in> set (df_national_avg df sel)"
    and y: "YEAR n = YEAR l"
  shows "\<exists>g q x z. df_gap df sel = Some g \<and> x \<in> set g
           \<and> REGION x = REGION l \<and> YEAR x = YEAR l \<and> SALARY x = SALARY l
           \<and> SALARY_NATIONAL x = SALARY n
           \<and> GAP x = fsub (SALARY l) (SALARY n)
           \<and> (fgt (GAP x) (Fin 0) \<longrightarrow> GAP_STATUS x = Above_National_Average)
           \<and> (feq (GAP x) (Fin 0) \<longrightarrow> GAP_STATUS x = Equal_to_National_Average)
           \<and> (flt (GAP x) (Fin 0) \<longrightarrow> GAP_STATUS x = Below_National_Average)
         \<and> df_ratio df sel = Some q \<and> z \<in> set q
           \<and> REGION z = REGION l \<and> YEAR z = YEAR l \<and> SALARY z = SALARY l
           \<and> SALARY_NATIONAL z = SALARY n
           \<and> RATIO z = fmul (fdiv (SALARY l) (SALARY n)) (Fin 100)
           \<and> (fgt (RATIO z) (Fin 100) \<longrightarrow> RATIO_STATUS z = Above_National_Average)
           \<and> (feq (RATIO z) (Fin 100) \<longrightarrow> RATIO_STATUS z = Equal_to_National_Average)
           \<and> (flt (RATIO z) (Fin 100) \<longrightarrow> RATIO_STATUS z = Below_National_Average)"
proof -
  let ?m = "\<lparr>REGION = REGION l, YEAR = YEAR l, SALARY = SALARY l, SALARY_NATIONAL = SALARY n\<rparr>"
  let ?M = "merge_left (df_selected df sel) (df_national_avg df sel)"
  have m: "?m \<in> set ?M" by (rule merge_left_matched[OF l n y])
  have ne: "df_selected df sel \<noteq> []" "df_national_avg df sel \<noteq> []" using l n by auto
  have g: "df_gap df sel = Some (map add_gap ?M)" using ne by (simp add: df_gap_def)
  have q: "df_ratio df sel = Some (map add_ratio ?M)" using ne by (simp add: df_ratio_def)
  have xg: "add_gap ?m \<in> set (map add_gap ?M)" using m by simp
  have zq: "add_ratio ?m \<in> set (map add_ratio ?M)" using m by simp
  show ?thesis
    apply (rule exI[of _ "map add_gap ?M"], rule exI[of _ "map add_ratio ?M"])
    apply (rule exI[of _ "add_gap ?m"], rule exI[of _ "add_ratio ?m"])
    using g q xg zq gap_status_cases[of "fsub (SALARY l) (SALARY n)"]
      ratio_status_cases[of "fmul (fdiv (SALARY l) (SALARY n)) (Fin 100)"]
    by (simp add: add_gap_def add_ratio_def Let_def)
qed

theorem gap_and_ratio_of_matched_row_witness:
  "jakarta_2024 \<in> set (df_selected scenario narrow)
   \<and> indonesia_2024 \<in> set (df_national_avg scenario narrow)
   \<and> YEAR indonesia_2024 = YEAR jakarta_2024
   \<and> (\<exists>g x. df_gap scenario narrow = Some g \<and> x \<in> set g
         \<and> GAP x = fsub (SALARY jakarta_2024) (SALARY indonesia_2024))
   \<and> df_gap scenario narrow =
       Some [\<lparr>REGION = ''Jakarta'', YEAR = Some 2024, SALARY = Fin 5100000,
              SALARY_NATIONAL = Fin 3000000, GAP = Fin 2100000,
              GAP_STATUS = Above_National_Average\<rparr>]
   \<and> df_ratio scenario narrow =
       Some [\<lparr>REGION = ''Jakarta'', YEAR = Some 2024, SALARY = Fin 5100000,
              SALARY_NATIONAL = Fin 3000000, RATIO = Fin 170,
              RATIO_STATUS = Above_National_Average\<rparr>]"
proof -
  have h1: "jakarta_2024 \<in> set (df_selected scenario narrow)" by code_simp
  have h2: "indonesia_2024 \<in> set (df_national_avg scenario narrow)" by code_simp
  have h3: "YEAR indonesia_2024 = YEAR jakarta_2024" by code_simp
  have g: "df_gap scenario narrow =
       Some [\<lparr>REGION = ''Jakarta'', YEAR = Some 2024, SALARY = Fin 5100000,
              SALARY_NATIONAL = Fin 3000000, GAP = Fin 2100000,
              GAP_STATUS = Above_National_Average\<rparr>]" by code_simp
  have q: "df_ratio scenario narrow =
       Some [\<lparr>REGION = ''Jakarta'', YEAR = Some 2024, SALARY = Fin 5100000,
              SALARY_NATIONAL = Fin 3000000, RATIO = Fin 170,
              RATIO_STATUS = Above_National_Average\<rparr>]" by code_simp
  from gap_and_ratio_of_matched_row[OF h1 h2 h3]
  have "\<exists>g x. df_gap scenario narrow = Some g \<and> x \<in> set g
         \<and> GAP x = fsub (SALARY jakarta_2024) (SALARY indonesia_2024)" by blast
  with h1 h2 h3 g q show ?thesis by blast
qed


lemma fsub_NaN [simp]: "fsub a NaN = NaN"
  by (cases a) (simp_all add: fsub_def)

lemma fdiv_NaN [simp]: "fdiv a NaN = NaN"
  by (cases a) simp_all




section \<open>Selections and missing values\<close>

lemma pick_mem: "pick asc col xs = Some m \<Longrightarrow> m \<in> set xs"
  by (induction xs arbitrary: m) (auto split: option.splits if_splits)

lemma set_select_n: "set (select_n asc col n xs) \<subseteq> set xs"
proof (induction n arbitrary: xs)
  case 0
  show ?case by simp
next
  case (Suc n)
  show ?case
  proof (cases "pick asc col xs")
    case None
    then show ?thesis by simp
  next
    case (Some m)
    have "set (select_n asc col n (remove1 m xs)) \<subseteq> set xs"
      using Suc[of "remove1 m xs"] set_remove1_subset[of m xs] by blast
    with Some pick_mem[OF Some] show ?thesis by simp
  qed
qed

lemma set_select_frame: "set (select_frame asc n col xs) \<subseteq> set xs"
proof -
  have "set (select_frame asc n col xs)
          \<subseteq> set (select_n asc col n (filter (\<lambda>x. col x \<noteq> NaN) xs) @ filter (\<lambda>x. col x = NaN) xs)"
    unfolding select_frame_def by (rule set_take_subset)
  also have "\<dots> \<subseteq> set xs"
    using set_select_n[of asc col n "filter (\<lambda>x. col x \<noteq> NaN) xs"] by auto
  finally show ?thesis .
qed

lemma fadd_NaN_right: "fadd a NaN = NaN"
  by (cases a) simp_all

lemma first_change: "pct_change c NaN = NaN \<and> diff c NaN = NaN"
  by (simp add: pct_change_def diff_def fsub_def fadd_NaN_right)

section \<open>Year-over-year change within a region\<close>

lemma changes_Cons:
  "changes seen (w # ws) = change_row w (prev_of seen (REGION w)) # changes (seen(REGION w \<mapsto> SALARY w)) ws"
  by (simp add: change_row_def prev_of_def Let_def)

lemma REGION_change_row [simp]: "REGION (change_row w p) = REGION w"
  by (simp add: change_row_def)

lemma changes_by_group:
  "filter (\<lambda>g. REGION g = r) (changes seen rows)
     = group_changes (prev_of seen r) (filter (\<lambda>w. REGION w = r) rows)"
proof (induction rows arbitrary: seen)
  case Nil
  show ?case by simp
next
  case (Cons w ws)
  let ?seen = "seen(REGION w \<mapsto> SALARY w)"
  show ?case
  proof (cases "REGION w = r")
    case True
    have p: "prev_of ?seen r = SALARY w"
      using True by (simp add: prev_of_def)
    have a: "filter (\<lambda>g. REGION g = r) (changes seen (w # ws))
               = change_row w (prev_of seen r) # filter (\<lambda>g. REGION g = r) (changes ?seen ws)"
      using True by (simp add: changes_Cons del: changes.simps)
    have b: "filter (\<lambda>w. REGION w = r) (w # ws) = w # filter (\<lambda>w. REGION w = r) ws"
      using True by simp
    show ?thesis by (simp only: a b Cons[of ?seen] p group_changes.simps)
  next
    case False
    have p: "prev_of ?seen r = prev_of seen r"
      using False by (simp add: prev_of_def)
    have a: "filter (\<lambda>g. REGION g = r) (changes seen (w # ws))
               = filter (\<lambda>g. REGION g = r) (changes ?seen ws)"
      using False by (simp add: changes_Cons del: changes.simps)
    have b: "filter (\<lambda>w. REGION w = r) (w # ws) = filter (\<lambda>w. REGION w = r) ws"
      using False by simp
    show ?thesis by (simp only: a b Cons[of ?seen] p group_changes.simps)
  qed
qed

lemma length_group_changes [simp]: "length (group_changes p ws) = length ws"
  by (induction ws arbitrary: p) simp_all

lemma group_changes_nth:
  "i < length ws \<Longrightarrow>
   group_changes p ws ! i = change_row (ws ! i) (if i = 0 then p else SALARY (ws ! (i - 1)))"
proof (induction ws arbitrary: p i)
  case Nil
  then show ?case by simp
next
  case (Cons w ws)
  show ?case
  proof (cases i)
    case 0
    then show ?thesis by simp
  next
    case (Suc j)
    with Cons.prems have "j < length ws" by simp
    from Cons.IH[OF this, of "SALARY w"] Suc show ?thesis
      by (cases j) simp_all
  qed
qed

lemma pct_change_formula:
  "p \<noteq> PInf \<Longrightarrow> p \<noteq> NInf \<Longrightarrow> pct_change c p = fmul (fdiv (fsub c p) p) (Fin 100)"
  by (cases c; cases p) (auto simp: pct_change_def fsub_def field_simps)

lemma growth_filtered_year:
  "w \<in> set (growth_filtered df sel) \<Longrightarrow> \<exists>y. YEAR w = Some y"
  by (auto simp: growth_filtered_def Let_def year_between_def split: if_splits option.splits)

lemma group_sorted_by_year:
  fixes df sel r
  defines "S \<equiv> filter (\<lambda>w. REGION w = r) (sort_region_year (growth_filtered df sel))"
  shows "\<exists>ys. map YEAR S = map Some ys \<and> sorted ys"
proof -
  let ?key = "\<lambda>w::wage. (REGION w, year_key w)"
  have "sorted (map ?key (sort_region_year (growth_filtered df sel)))"
    unfolding sort_region_year_def by (rule sorted_sort_key)
  then have "sorted (map ?key S)"
    unfolding S_def by (rule sorted_filter)
  then have sw: "sorted_wrt (\<lambda>a b. ?key a \<le> ?key b) S"
    by (simp add: sorted_map)
  have mem: "\<And>w. w \<in> set S \<Longrightarrow> REGION w = r \<and> (\<exists>y. YEAR w = Some y)"
    using growth_filtered_year[of _ df sel] by (auto simp: S_def sort_region_year_def)
  have "sorted_wrt (\<lambda>a b. the (YEAR a) \<le> the (YEAR b)) S"
  proof (rule sorted_wrt_mono_rel[OF _ sw])
    fix a b assume "a \<in> set S" "b \<in> set S" "?key a \<le> ?key b"
    with mem[of a] mem[of b] show "the (YEAR a) \<le> the (YEAR b)"
      by (auto simp: year_key_def less_eq_prod_def)
  qed
  then have s: "sorted (map (\<lambda>w. the (YEAR w)) S)" by (simp add: sorted_map)
  have "map YEAR S = map Some (map (\<lambda>w. the (YEAR w)) S)"
    using mem by (auto simp: comp_def)
  with s show ?thesis by blast
qed

text \<open>
  C4.  In the growth table the rows of one region come in ascending year order.  The first
  of them has NaN in both change columns and is not in the growth output \<open>pct_df\<close>.
  Every later row has \<open>NOMINAL_CHANGE\<close> equal to its salary minus the salary of the row
  before and, when that salary is not infinite, \<open>PCT_CHANGE\<close> equal to that difference
  divided by the salary of the row before, times 100.  Salaries 100, 110, 121 give the
  nominal changes 10, 11 and the percent changes 10, 10.
\<close>

theorem change_within_group:
  fixes df sel r
  defines "S \<equiv> filter (\<lambda>w. REGION w = r) (sort_region_year (growth_filtered df sel))"
      and "G \<equiv> filter (\<lambda>g. REGION g = r) (growth_table df sel)"
  shows "(\<exists>ys. map YEAR S = map Some ys \<and> sorted ys)
       \<and> length G = length S
       \<and> (\<forall>i<length S.
            REGION (G ! i) = r \<and> YEAR (G ! i) = YEAR (S ! i) \<and> SALARY (G ! i) = SALARY (S ! i)
          \<and> (i = 0 \<longrightarrow> PCT_CHANGE (G ! i) = NaN \<and> NOMINAL_CHANGE (G ! i) = NaN
                       \<and> G ! i \<notin> set (pct_df df sel))
          \<and> (0 < i \<longrightarrow>
                NOMINAL_CHANGE (G ! i) = fsub (SALARY (S ! i)) (SALARY (S ! (i - 1)))
              \<and> (SALARY (S ! (i - 1)) \<noteq> PInf \<and> SALARY (S ! (i - 1)) \<noteq> NInf \<longrightarrow>
                   PCT_CHANGE (G ! i)
                     = fmul (fdiv (fsub (SALARY (S ! i)) (SALARY (S ! (i - 1))))
                                  (SALARY (S ! (i - 1)))) (Fin 100))))"
proof (intro conjI)
  show "\<exists>ys. map YEAR S = map Some ys \<and> sorted ys"
    unfolding S_def by (rule group_sorted_by_year)
  have G: "G = group_changes NaN S"
    unfolding G_def S_def growth_table_def changes_by_group by (simp add: prev_of_def)
  show "length G = length S" by (simp add: G)
  show "\<forall>i<length S.
            REGION (G ! i) = r \<and> YEAR (G ! i) = YEAR (S ! i) \<and> SALARY (G ! i) = SALARY (S ! i)
          \<and> (i = 0 \<longrightarrow> PCT_CHANGE (G ! i) = NaN \<and> NOMINAL_CHANGE (G ! i) = NaN
                       \<and> G ! i \<notin> set (pct_df df sel))
          \<and> (0 < i \<longrightarrow>
                NOMINAL_CHANGE (G ! i) = fsub (SALARY (S ! i)) (SALARY (S ! (i - 1)))
              \<and> (SALARY (S ! (i - 1)) \<noteq> PInf \<and> SALARY (S ! (i - 1)) \<noteq> NInf \<longrightarrow>
                   PCT_CHANGE (G ! i)
                     = fmul (fdiv (fsub (SALARY (S ! i)) (SALARY (S ! (i - 1))))
                                  (SALARY (S ! (i - 1)))) (Fin 100)))"
  proof (intro allI impI)
    fix i assume i: "i < length S"
    have nth: "G ! i = change_row (S ! i) (if i = 0 then NaN else SALARY (S ! (i - 1)))"
      unfolding G by (rule group_changes_nth[OF i])
    have r: "REGION (S ! i) = r"
      using nth_mem[OF i] by (simp add: S_def)
    have first: "i = 0 \<Longrightarrow> G ! i \<notin> set (pct_df df sel)"
    proof -
      assume "i = 0"
      with nth have "PCT_CHANGE (G ! i) = NaN" by (simp add: change_row_def first_change)
      then show ?thesis by (auto simp: pct_df_def)
    qed
    show "REGION (G ! i) = r \<and> YEAR (G ! i) = YEAR (S ! i) \<and> SALARY (G ! i) = SALARY (S ! i)
          \<and> (i = 0 \<longrightarrow> PCT_CHANGE (G ! i) = NaN \<and> NOMINAL_CHANGE (G ! i) = NaN
                       \<and> G ! i \<notin> set (pct_df df sel))
          \<and> (0 < i \<longrightarrow>
                NOMINAL_CHANGE (G ! i) = fsub (SALARY (S ! i)) (SALARY (S ! (i - 1)))
              \<and> (SALARY (S ! (i - 1)) \<noteq> PInf \<and> SALARY (S ! (i - 1)) \<noteq> NInf \<longrightarrow>
                   PCT_CHANGE (G ! i)
                     = fmul (fdiv (fsub (SALARY (S ! i)) (SALARY (S ! (i - 1))))
                                  (SALARY (S ! (i - 1)))) (Fin 100)))"
      using r first nth pct_change_formula[of "SALARY (S ! (i - 1))" "SALARY (S ! i)"]
      by (cases "i = 0") (simp_all add: change_row_def first_change diff_def)
  qed
qed

theorem change_within_group_witness:
  "map SALARY (filter (\<lambda>w. REGION w = ''Riau'') (sort_region_year (growth_filtered three_years last_two)))
     = [Fin 100, Fin 110, Fin 121]
   \<and> length (filter (\<lambda>g. REGION g = ''Riau'') (growth_table three_years last_two)) = 3
   \<and> NOMINAL_CHANGE (filter (\<lambda>g. REGION g = ''Riau'') (growth_table three_years last_two) ! 1)
       = fsub (Fin 110) (Fin 100)
   \<and> PCT_CHANGE (filter (\<lambda>g. REGION g = ''Riau'') (growth_table three_years last_two) ! 1)
       = fmul (fdiv (fsub (Fin 110) (Fin 100)) (Fin 100)) (Fin 100)
   \<and> map YEAR (pct_df three_years last_two) = [Some 2021, Some 2022]
   \<and> map NOMINAL_CHANGE (pct_df three_years last_two) = [Fin 10, Fin 11]
   \<and> map PCT_CHANGE (pct_df three_years last_two) = [Fin 10, Fin 10]"
proof -
  let ?S = "filter (\<lambda>w. REGION w = ''Riau'') (sort_region_year (growth_filtered three_years last_two))"
  let ?G = "filter (\<lambda>g. REGION g = ''Riau'') (growth_table three_years last_two)"
  have S: "?S = three_years" by code_simp
  have sal: "map SALARY ?S = [Fin 100, Fin 110, Fin 121]" by code_simp
  have out: "map YEAR (pct_df three_years last_two) = [Some 2021, Some 2022]
   \<and> map NOMINAL_CHANGE (pct_df three_years last_two) = [Fin 10, Fin 11]
   \<and> map PCT_CHANGE (pct_df three_years last_two) = [Fin 10, Fin 10]" by code_simp
  note t = change_within_group[of "''Riau''" three_years last_two]
  have len: "length ?G = length ?S" using t by blast
  have i: "(1::nat) < length ?S" unfolding S by (simp add: three_years_def)
  have s0: "SALARY (?S ! 0) = Fin 100" "SALARY (?S ! 1) = Fin 110"
    unfolding S by (simp_all add: three_years_def)
  from t i have
    "NOMINAL_CHANGE (?G ! 1) = fsub (SALARY (?S ! 1)) (SALARY (?S ! (1 - 1)))
     \<and> (SALARY (?S ! (1 - 1)) \<noteq> PInf \<and> SALARY (?S ! (1 - 1)) \<noteq> NInf \<longrightarrow>
          PCT_CHANGE (?G ! 1)
            = fmul (fdiv (fsub (SALARY (?S ! 1)) (SALARY (?S ! (1 - 1))))
                         (SALARY (?S ! (1 - 1)))) (Fin 100))"
    by (metis zero_less_one)
  then have n1: "NOMINAL_CHANGE (?G ! 1) = fsub (Fin 110) (Fin 100)"
    and p1: "PCT_CHANGE (?G ! 1) = fmul (fdiv (fsub (Fin 110) (Fin 100)) (Fin 100)) (Fin 100)"
    using s0 by simp_all
  have "length ?G = 3" using len unfolding S by (simp add: three_years_def)
  with sal n1 p1 out show ?thesis by blast
qed

section \<open>Zero denominators\<close>

lemma zero_division_values:
  "fmul (fdiv (Fin a) (Fin 0)) (Fin 100) = (if a = 0 then NaN else if a < 0 then NInf else PInf)
   \<and> pct_change (Fin a) (Fin 0) = (if a = 0 then NaN else if a < 0 then NInf else PInf)
   \<and> diff (Fin a) (Fin 0) = Fin a"
  by (simp add: pct_change_def diff_def fsub_def)

lemma ranking_subset:
  "set (nlargest n col xs) \<subseteq> set xs \<and> set (nsmallest n col xs) \<subseteq> set xs"
  by (simp add: nlargest_def nsmallest_def set_select_frame)

text \<open>
  C1, as the script has it.  No division is guarded.  The growth output and its ranking
  never hold NaN, because rows with a NaN change are dropped.  A row whose salary is not
  zero and whose previous row in its region has salary 0 is in the growth output with an
  infinite \<open>PCT_CHANGE\<close> of the sign of its salary.  A selected region row whose national
  row of the same year has salary 0 is in the ratio table with an infinite \<open>RATIO\<close> of
  the sign of its salary, and with NaN when its own salary is 0 too.
\<close>

theorem zero_denominator_is_emitted:
  fixes df sel r
  defines "S \<equiv> filter (\<lambda>w. REGION w = r) (sort_region_year (growth_filtered df sel))"
      and "G \<equiv> filter (\<lambda>g. REGION g = r) (growth_table df sel)"
  shows "(\<forall>g\<in>set (pct_df df sel). PCT_CHANGE g \<noteq> NaN \<and> NOMINAL_CHANGE g \<noteq> NaN)
       \<and> (\<forall>t b. pct_ranking_stage df sel = Inr (Shown (t, b)) \<longrightarrow>
             (\<forall>g\<in>set t \<union> set b. PCT_CHANGE g \<noteq> NaN \<and> NOMINAL_CHANGE g \<noteq> NaN))
       \<and> (\<forall>i a. 0 < i \<and> i < length S \<and> SALARY (S ! (i - 1)) = Fin 0 \<and> SALARY (S ! i) = Fin a
                 \<and> a \<noteq> 0 \<and> year_ge (year_from sel) (S ! i) \<longrightarrow>
             G ! i \<in> set (pct_df df sel) \<and> REGION (G ! i) = r \<and> YEAR (G ! i) = YEAR (S ! i)
             \<and> NOMINAL_CHANGE (G ! i) = Fin a
             \<and> PCT_CHANGE (G ! i) = (if a < 0 then NInf else PInf))
       \<and> (\<forall>l n a. l \<in> set (df_selected df sel) \<and> n \<in> set (df_national_avg df sel)
                 \<and> YEAR n = YEAR l \<and> SALARY n = Fin 0 \<and> SALARY l = Fin a \<longrightarrow>
             (\<exists>q x. df_ratio df sel = Some q \<and> x \<in> set q
                \<and> REGION x = REGION l \<and> YEAR x = YEAR l \<and> SALARY x = Fin a
                \<and> SALARY_NATIONAL x = Fin 0
                \<and> RATIO x = (if a = 0 then NaN else if a < 0 then NInf else PInf)))"
proof (intro conjI)
  show nn: "\<forall>g\<in>set (pct_df df sel). PCT_CHANGE g \<noteq> NaN \<and> NOMINAL_CHANGE g \<noteq> NaN"
    by (simp add: pct_df_def)
  show "\<forall>t b. pct_ranking_stage df sel = Inr (Shown (t, b)) \<longrightarrow>
             (\<forall>g\<in>set t \<union> set b. PCT_CHANGE g \<noteq> NaN \<and> NOMINAL_CHANGE g \<noteq> NaN)"
  proof (intro allI impI)
    fix t b assume "pct_ranking_stage df sel = Inr (Shown (t, b))"
    then have "set t \<subseteq> set (pct_df df sel)" "set b \<subseteq> set (pct_df df sel)"
      using ranking_subset[of "top_bottom_n sel" PCT_CHANGE "pct_df df sel"]
      by (auto simp: pct_ranking_stage_def pct_df_name_def split: if_splits)
    with nn show "\<forall>g\<in>set t \<union> set b. PCT_CHANGE g \<noteq> NaN \<and> NOMINAL_CHANGE g \<noteq> NaN"
      by blast
  qed
  have G: "G = group_changes NaN S"
    unfolding G_def S_def growth_table_def changes_by_group by (simp add: prev_of_def)
  show "\<forall>i a. 0 < i \<and> i < length S \<and> SALARY (S ! (i - 1)) = Fin 0 \<and> SALARY (S ! i) = Fin a
                 \<and> a \<noteq> 0 \<and> year_ge (year_from sel) (S ! i) \<longrightarrow>
             G ! i \<in> set (pct_df df sel) \<and> REGION (G ! i) = r \<and> YEAR (G ! i) = YEAR (S ! i)
             \<and> NOMINAL_CHANGE (G ! i) = Fin a
             \<and> PCT_CHANGE (G ! i) = (if a < 0 then NInf else PInf)"
  proof (intro allI impI)
    fix i a
    assume h: "0 < i \<and> i < length S \<and> SALARY (S ! (i - 1)) = Fin 0 \<and> SALARY (S ! i) = Fin a
                 \<and> a \<noteq> 0 \<and> year_ge (year_from sel) (S ! i)"
    then have i: "i < length S" and i0: "i \<noteq> 0" by auto
    have nth: "G ! i = change_row (S ! i) (Fin 0)"
      unfolding G using group_changes_nth[OF i, of NaN] i0 h by simp
    have r: "REGION (S ! i) = r"
      using nth_mem[OF i] by (simp add: S_def)
    have vals: "REGION (G ! i) = r" "YEAR (G ! i) = YEAR (S ! i)"
      "NOMINAL_CHANGE (G ! i) = Fin a" "PCT_CHANGE (G ! i) = (if a < 0 then NInf else PInf)"
      using h r zero_division_values[of a] by (simp_all add: nth change_row_def)
    have "i < length G" using i by (simp add: G)
    then have "G ! i \<in> set G" by (rule nth_mem)
    then have tab: "G ! i \<in> set (growth_table df sel)" by (simp add: G_def)
    have yr: "year_ge (year_from sel) (G ! i)"
      using h vals(2) by (simp add: year_ge_def)
    have "G ! i \<in> set (pct_df df sel)"
      using tab yr vals(3,4) by (simp add: pct_df_def)
    with vals show "G ! i \<in> set (pct_df df sel) \<and> REGION (G ! i) = r \<and> YEAR (G ! i) = YEAR (S ! i)
             \<and> NOMINAL_CHANGE (G ! i) = Fin a
             \<and> PCT_CHANGE (G ! i) = (if a < 0 then NInf else PInf)" by simp
  qed
  show "\<forall>l n a. l \<in> set (df_selected df sel) \<and> n \<in> set (df_national_avg df sel)
                 \<and> YEAR n = YEAR l \<and> SALARY n = Fin 0 \<and> SALARY l = Fin a \<longrightarrow>
             (\<exists>q x. df_ratio df sel = Some q \<and> x \<in> set q
                \<and> REGION x = REGION l \<and> YEAR x = YEAR l \<and> SALARY x = Fin a
                \<and> SALARY_NATIONAL x = Fin 0
                \<and> RATIO x = (if a = 0 then NaN else if a < 0 then NInf else PInf))"
  proof (intro allI impI)
    fix l n a
    assume h: "l \<in> set (df_selected df sel) \<and> n \<in> set (df_national_avg df sel)
                 \<and> YEAR n = YEAR l \<and> SALARY n = Fin 0 \<and> SALARY l = Fin a"
    let ?m = "\<lparr>REGION = REGION l, YEAR = YEAR l, SALARY = SALARY l, SALARY_NATIONAL = SALARY n\<rparr>"
    let ?M = "merge_left (df_selected df sel) (df_national_avg df sel)"
    have m: "?m \<in> set ?M" using h by (intro merge_left_matched) auto
    have ne: "df_selected df sel \<noteq> []" "df_national_avg df sel \<noteq> []" using h by auto
    have q: "df_ratio df sel = Some (map add_ratio ?M)" using ne by (simp add: df_ratio_def)
    have zq: "add_ratio ?m \<in> set (map add_ratio ?M)" using m by simp
    show "\<exists>q x. df_ratio df sel = Some q \<and> x \<in> set q
                \<and> REGION x = REGION l \<and> YEAR x = YEAR l \<and> SALARY x = Fin a
                \<and> SALARY_NATIONAL x = Fin 0
                \<and> RATIO x = (if a = 0 then NaN else if a < 0 then NInf else PInf)"
      apply (rule exI[of _ "map add_ratio ?M"], rule exI[of _ "add_ratio ?m"])
      using q zq h zero_division_values[of a] by (simp add: add_ratio_def Let_def)
  qed
qed

theorem zero_denominator_is_emitted_witness:
  "map SALARY (filter (\<lambda>w. REGION w = ''Bali'') (sort_region_year (growth_filtered zero_salary year_2022)))
     = [Fin 0, Fin 50]
   \<and> year_ge (year_from year_2022)
        (filter (\<lambda>w. REGION w = ''Bali'') (sort_region_year (growth_filtered zero_salary year_2022)) ! 1)
   \<and> filter (\<lambda>g. REGION g = ''Bali'') (growth_table zero_salary year_2022) ! 1
        \<in> set (pct_df zero_salary year_2022)
   \<and> PCT_CHANGE (filter (\<lambda>g. REGION g = ''Bali'') (growth_table zero_salary year_2022) ! 1) = PInf
   \<and> zero_region \<in> set (df_selected zero_salary year_2022)
   \<and> zero_national \<in> set (df_national_avg zero_salary year_2022)
   \<and> YEAR zero_national = YEAR zero_region
   \<and> (\<exists>q x. df_ratio zero_salary year_2022 = Some q \<and> x \<in> set q
         \<and> REGION x = ''Bali'' \<and> SALARY_NATIONAL x = Fin 0 \<and> RATIO x = PInf)"
proof -
  let ?S = "filter (\<lambda>w. REGION w = ''Bali'') (sort_region_year (growth_filtered zero_salary year_2022))"
  let ?G = "filter (\<lambda>g. REGION g = ''Bali'') (growth_table zero_salary year_2022)"
  have S: "?S = [\<lparr>REGION = ''Bali'', YEAR = Some 2021, SALARY = Fin 0\<rparr>,
                 \<lparr>REGION = ''Bali'', YEAR = Some 2022, SALARY = Fin 50\<rparr>]" by code_simp
  have sal: "map SALARY ?S = [Fin 0, Fin 50]" unfolding S by simp
  have i: "(0::nat) < 1 \<and> 1 < length ?S \<and> SALARY (?S ! (1 - 1)) = Fin 0 \<and> SALARY (?S ! 1) = Fin 50
           \<and> (50::rat) \<noteq> 0 \<and> year_ge (year_from year_2022) (?S ! 1)"
    unfolding S by (simp add: year_ge_def year_2022_def)
  have l: "zero_region \<in> set (df_selected zero_salary year_2022)" by code_simp
  have n: "zero_national \<in> set (df_national_avg zero_salary year_2022)" by code_simp
  have y: "YEAR zero_national = YEAR zero_region" by (simp add: zero_national_def zero_region_def)
  have v: "SALARY zero_national = Fin 0" "SALARY zero_region = Fin 50" "REGION zero_region = ''Bali''"
    by (simp_all add: zero_national_def zero_region_def)
  note t = zero_denominator_is_emitted[of zero_salary year_2022 "''Bali''"]
  from t i have g: "?G ! 1 \<in> set (pct_df zero_salary year_2022) \<and> PCT_CHANGE (?G ! 1) = PInf"
    by (metis (no_types, lifting) not_less_iff_gr_or_eq zero_less_numeral)
  from t l n y v have q: "\<exists>q x. df_ratio zero_salary year_2022 = Some q \<and> x \<in> set q
         \<and> REGION x = ''Bali'' \<and> SALARY_NATIONAL x = Fin 0 \<and> RATIO x = PInf"
    by (metis (no_types, lifting) not_less_iff_gr_or_eq zero_less_numeral)
  from sal i g l n y q show ?thesis by blast
qed

text \<open>
  The claim C1 as stated fails on a frame with a national salary of 0 and a prior-year
  salary of 0: both the percent change and the ratio are infinite, and both are ranked.
\<close>

theorem zero_salary_counterexample:
  "pct_df zero_salary year_2022 =
     [\<lparr>REGION = ''Bali'', YEAR = Some 2022, SALARY = Fin 50,
       PCT_CHANGE = PInf, NOMINAL_CHANGE = Fin 50\<rparr>]
   \<and> pct_ranking_stage zero_salary year_2022 =
       Inr (Shown ([\<lparr>REGION = ''Bali'', YEAR = Some 2022, SALARY = Fin 50,
                     PCT_CHANGE = PInf, NOMINAL_CHANGE = Fin 50\<rparr>],
                   [\<lparr>REGION = ''Bali'', YEAR = Some 2022, SALARY = Fin 50,
                     PCT_CHANGE = PInf, NOMINAL_CHANGE = Fin 50\<rparr>]))
   \<and> df_ratio zero_salary year_2022 =
       Some [\<lparr>REGION = ''Bali'', YEAR = Some 2022, SALARY = Fin 50,
              SALARY_NATIONAL = Fin 0, RATIO = PInf,
              RATIO_STATUS = Above_National_Average\<rparr>]
   \<and> ratio_ranking_stage zero_salary year_2022 =
       Inr ([\<lparr>REGION = ''Bali'', YEAR = Some 2022, SALARY = Fin 50,
              SALARY_NATIONAL = Fin 0, RATIO = PInf,
              RATIO_STATUS = Above_National_Average\<rparr>],
            [\<lparr>REGION = ''Bali'', YEAR = Some 2022, SALARY = Fin 50,
              SALARY_NATIONAL = Fin 0, RATIO = PInf,
              RATIO_STATUS = Above_National_Average\<rparr>])"
  by code_simp

section \<open>Ranking\<close>

lemma ahead_refl: "a \<noteq> NaN \<Longrightarrow> ahead asc a a"
  by (simp add: ahead_def fle_def feq_def)

lemma ahead_NaN_left: "\<not> ahead asc NaN b \<or> b = NaN"
  by (cases b) (auto simp: ahead_def fle_def feq_def)

lemma insert_row_before_NaN:
  "\<forall>y\<in>set B. col y = NaN \<Longrightarrow>
   insert_row asc col x (A @ B) = insert_row asc col x A @ B"
proof (induction A)
  case Nil
  then show ?case by (cases B) (simp_all add: goes_before_def)
next
  case (Cons a A)
  then show ?case by simp
qed

lemma insert_row_NaN_last:
  "col x = NaN \<Longrightarrow> \<forall>y\<in>set A. col y \<noteq> NaN \<Longrightarrow> insert_row asc col x A = A @ [x]"
proof (induction A)
  case Nil
  show ?case by simp
next
  case (Cons a A)
  have "\<not> goes_before asc col x a"
    using Cons.prems ahead_NaN_left[of asc "col a"] by (auto simp: goes_before_def)
  with Cons show ?case by simp
qed

lemma set_insert_row: "set (insert_row asc col x ys) = insert x (set ys)"
  by (induction ys) auto

lemma set_sort_values: "set (sort_values asc col xs) = set xs"
  by (induction xs) (simp_all add: sort_values_def set_insert_row)

lemma sort_values_Cons:
  "sort_values asc col (x # xs) = insert_row asc col x (sort_values asc col xs)"
  by (simp add: sort_values_def)

lemma sort_values_NaN_last:
  "sort_values asc col xs
     = sort_values asc col (filter (\<lambda>x. col x \<noteq> NaN) xs) @ filter (\<lambda>x. col x = NaN) xs"
proof (induction xs)
  case Nil
  show ?case by (simp add: sort_values_def)
next
  case (Cons x xs)
  let ?A = "sort_values asc col (filter (\<lambda>x. col x \<noteq> NaN) xs)"
  let ?B = "filter (\<lambda>x. col x = NaN) xs"
  have B: "\<forall>y\<in>set ?B. col y = NaN" by simp
  have A: "\<forall>y\<in>set ?A. col y \<noteq> NaN" by (simp add: set_sort_values)
  have step: "sort_values asc col (x # xs) = insert_row asc col x ?A @ ?B"
    by (simp only: sort_values_Cons Cons.IH insert_row_before_NaN[OF B])
  show ?case
  proof (cases "col x = NaN")
    case True
    with step insert_row_NaN_last[OF True A] show ?thesis by simp
  next
    case False
    with step show ?thesis by (simp add: sort_values_Cons)
  qed
qed

lemma pick_None: "pick asc col xs = None \<longleftrightarrow> xs = []"
  by (cases xs) (auto split: option.splits)

lemma sort_values_pick:
  "\<forall>y\<in>set ys. col y \<noteq> NaN \<Longrightarrow> pick asc col ys = Some m \<Longrightarrow>
   sort_values asc col ys = m # sort_values asc col (remove1 m ys)"
proof (induction ys arbitrary: m)
  case Nil
  then show ?case by simp
next
  case (Cons x xs)
  show ?case
  proof (cases "pick asc col xs")
    case None
    then have "xs = []" by (simp add: pick_None)
    with Cons.prems show ?thesis by (simp add: sort_values_def)
  next
    case (Some m')
    have nn: "\<forall>y\<in>set xs. col y \<noteq> NaN" using Cons.prems(1) by simp
    have IH: "sort_values asc col xs = m' # sort_values asc col (remove1 m' xs)"
      by (rule Cons.IH[OF nn Some])
    have m': "m' \<in> set xs" using Some by (rule pick_mem)
    then have cm: "col m' \<noteq> NaN" using nn by blast
    show ?thesis
    proof (cases "ahead asc (col x) (col m')")
      case True
      then have "m = x" using Cons.prems(2) Some by simp
      moreover have "insert_row asc col x (m' # sort_values asc col (remove1 m' xs))
                       = x # m' # sort_values asc col (remove1 m' xs)"
        using True by (simp add: goes_before_def)
      ultimately show ?thesis by (simp add: sort_values_Cons IH)
    next
      case False
      then have m: "m = m'" using Cons.prems(2) Some by simp
      have "x \<noteq> m'" using False ahead_refl[OF cm, of asc] by auto
      then have r: "remove1 m' (x # xs) = x # remove1 m' xs" by simp
      have ins: "insert_row asc col x (m' # sort_values asc col (remove1 m' xs))
              = m' # insert_row asc col x (sort_values asc col (remove1 m' xs))"
        using False cm by (simp add: goes_before_def)
      have "sort_values asc col (x # xs)
              = insert_row asc col x (m' # sort_values asc col (remove1 m' xs))"
        by (simp only: sort_values_Cons IH[symmetric])
      also have "\<dots> = m' # sort_values asc col (x # remove1 m' xs)"
        by (simp only: ins sort_values_Cons)
      finally show ?thesis by (simp only: m r)
    qed
  qed
qed

lemma select_n_is_sorted_prefix:
  "\<forall>y\<in>set ys. col y \<noteq> NaN \<Longrightarrow> select_n asc col n ys = take n (sort_values asc col ys)"
proof (induction n arbitrary: ys)
  case 0
  show ?case by simp
next
  case (Suc n)
  show ?case
  proof (cases "pick asc col ys")
    case None
    then show ?thesis by (simp add: pick_None sort_values_def)
  next
    case (Some m)
    have "\<forall>y\<in>set (remove1 m ys). col y \<noteq> NaN"
      using Suc.prems set_remove1_subset[of m ys] by blast
    from Suc.IH[OF this] sort_values_pick[OF Suc.prems Some] Some show ?thesis by simp
  qed
qed

lemma take_take_append: "take n (take n A @ B) = take n (A @ B)"
  by (simp add: min_def)

lemma select_frame_is_sorted_prefix:
  "select_frame asc n col xs = take n (sort_values asc col xs)"
proof -
  have "select_frame asc n col xs
          = take n (take n (sort_values asc col (filter (\<lambda>x. col x \<noteq> NaN) xs))
                    @ filter (\<lambda>x. col x = NaN) xs)"
    unfolding select_frame_def by (subst select_n_is_sorted_prefix) simp_all
  also have "\<dots> = take n (sort_values asc col xs)"
    by (simp only: take_take_append sort_values_NaN_last[symmetric])
  finally show ?thesis .
qed

text \<open>
  C6.  The top-N ranking is the first N rows of the frame sorted on the column in
  descending order, the bottom-N ranking the first N rows of the frame sorted in ascending
  order; so are the two rankings by actual value.  For the salaries A 5, B 3, C 8, D 1 the
  top two are C, A and the bottom two are D, B.
\<close>

theorem ranking_is_sorted_prefix:
  "nlargest n col xs = spec_top_n n col xs
   \<and> nsmallest n col xs = spec_bottom_n n col xs
   \<and> top_df df sel = spec_top_n (top_bottom_n sel) SALARY (prov_filtered df sel)
   \<and> bot_df df sel = spec_bottom_n (top_bottom_n sel) SALARY (prov_filtered df sel)
   \<and> map REGION (nlargest 2 SALARY abcd) = [''C'', ''A'']
   \<and> map REGION (nsmallest 2 SALARY abcd) = [''D'', ''B'']"
proof -
  have e: "map REGION (nlargest 2 SALARY abcd) = [''C'', ''A'']
           \<and> map REGION (nsmallest 2 SALARY abcd) = [''D'', ''B'']"
    by code_simp
  show ?thesis
    using e by (simp add: nlargest_def nsmallest_def spec_top_n_def spec_bottom_n_def
                  top_df_def bot_df_def select_frame_is_sorted_prefix)
qed

section \<open>Empty stages\<close>

text \<open>
  C3 fails on the script.  With Riau alone selected, its only row two years before the
  range, and the national rows left out of the growth stage, the year frame and the frame
  ranked by actual value are not empty but the growth frame is: \<open>pct_df\<close> is never
  assigned and the ranking by percent change raises NameError.  With the national rows
  included the run goes on until \<open>top_ratio\<close> is read unassigned.  On a frame without
  national rows the gap ranking looks up a GAP column that was never added.  The same
  three outcomes on two smaller frames follow.
\<close>

theorem empty_stage_raises:
  "run stale_selection riau_2022_provinces_only = Raised (NameError ''pct_df'')
   \<and> df_year stale_selection riau_2022_provinces_only \<noteq> []
   \<and> prov_filtered stale_selection riau_2022_provinces_only \<noteq> []
   \<and> growth_filtered stale_selection riau_2022_provinces_only = []
   \<and> run stale_selection riau_2022 = Raised (NameError ''top_ratio'')
   \<and> pct_df_name stale_selection riau_2022 = Some []
   \<and> df_selected stale_selection riau_2022 = []
   \<and> run provinces_only year_2022 = Raised (KeyError ''GAP'')
   \<and> df_national_avg provinces_only year_2022 = []
   \<and> run old_province year_2022_provinces_only = Raised (NameError ''pct_df'')
   \<and> growth_filtered old_province year_2022_provinces_only = []
   \<and> run old_province year_2022 = Raised (NameError ''top_ratio'')
   \<and> df_selected old_province year_2022 = []
   \<and> run no_national year_2022 = Raised (KeyError ''GAP'')
   \<and> df_national_avg no_national year_2022 = []"
  by code_simp

section \<open>Heatmap cells\<close>

lemma group_keys_iff:
  "(r, y) \<in> set (group_keys rows) \<longleftrightarrow> (\<exists>w\<in>set rows. REGION w = r \<and> YEAR w = Some y)"
  by (induction rows) (auto split: option.splits)

lemma cell_salaries_empty:
  "cell_salaries rows r y = [] \<longleftrightarrow> (r, y) \<notin> set (group_keys rows)"
  by (auto simp: cell_salaries_def group_keys_iff filter_empty_conv)

lemma map_of_filtered_table:
  "map_of (filter P (map (\<lambda>k. (k, f k)) ks)) k
     = (if k \<in> set ks \<and> P (k, f k) then Some (f k) else None)"
  by (induction ks) auto

lemma agged_lookup:
  "map_of (agged rows) (r, y)
     = (if (r, y) \<in> set (group_keys rows) \<and> mean_skipna (cell_salaries rows r y) \<noteq> NaN
        then Some (mean_skipna (cell_salaries rows r y)) else None)"
proof -
  have "agged rows
          = filter (\<lambda>(k, m). m \<noteq> NaN)
              (map (\<lambda>k. (k, mean_skipna (cell_salaries rows (fst k) (snd k))))
                   (remdups (group_keys rows)))"
    by (simp add: agged_def case_prod_unfold)
  then show ?thesis
    by (simp add: map_of_filtered_table)
qed

lemma foldl_fadd_Fin: "foldl fadd (Fin a) (map Fin qs) = Fin (a + sum_list qs)"
  by (induction qs arbitrary: a) (simp_all add: add.assoc)

lemma mean_skipna_Fin:
  "qs \<noteq> [] \<Longrightarrow> mean_skipna (map Fin qs) = Fin (sum_list qs / of_nat (length qs))"
proof -
  assume ne: "qs \<noteq> []"
  have "filter (\<lambda>v. v \<noteq> NaN) (map Fin qs) = map Fin qs"
    by (induction qs) simp_all
  then show ?thesis
    using ne by (simp add: mean_skipna_def foldl_fadd_Fin)
qed

text \<open>
  C10.  A cell of the heatmap whose region and year match no record is 0.  A cell whose
  matching records all carry a finite salary is the arithmetic mean of those salaries, so
  two records for one region and year are averaged.  The matrix of the heatmap holds these
  cells, row by row of its index and column by column of its years.
\<close>

theorem heat_cell_is_mean_or_zero:
  "(cell_salaries rows r y = [] \<longrightarrow> heat_cell rows r y = Fin 0)
   \<and> (qs \<noteq> [] \<and> cell_salaries rows r y = map Fin qs \<longrightarrow>
        heat_cell rows r y = Fin (sum_list qs / of_nat (length qs)))
   \<and> (heat_data df sel = Some h \<longrightarrow>
        heat_values h
          = map (\<lambda>r. map (heat_cell (df_heat df sel) r) (heat_columns h)) (heat_index h))"
proof (intro conjI impI)
  assume "cell_salaries rows r y = []"
  then show "heat_cell rows r y = Fin 0"
    by (simp add: heat_cell_def agged_lookup cell_salaries_empty fillna0_def)
next
  assume a: "qs \<noteq> [] \<and> cell_salaries rows r y = map Fin qs"
  then have "cell_salaries rows r y \<noteq> []" by auto
  then have k: "(r, y) \<in> set (group_keys rows)" by (simp add: cell_salaries_empty)
  from a mean_skipna_Fin[of qs]
  have m: "mean_skipna (cell_salaries rows r y) = Fin (sum_list qs / of_nat (length qs))"
    by simp
  show "heat_cell rows r y = Fin (sum_list qs / of_nat (length qs))"
    by (simp add: heat_cell_def agged_lookup k m fillna0_def)
next
  assume "heat_data df sel = Some h"
  then show "heat_values h
          = map (\<lambda>r. map (heat_cell (df_heat df sel) r) (heat_columns h)) (heat_index h)"
    by (auto simp: heat_data_def pivot_table_def Let_def split: if_splits)
qed

theorem heat_cell_is_mean_or_zero_witness:
  "cell_salaries duplicated ''Bali'' 2023 = map Fin [10, 20]
   \<and> heat_cell duplicated ''Bali'' 2023 = Fin 15
   \<and> cell_salaries duplicated ''Bali'' 2024 = []
   \<and> heat_cell duplicated ''Bali'' 2024 = Fin 0
   \<and> heat_data duplicated years_2023_2024
       = Some \<lparr>heat_index = [''Bali'', ''Riau''], heat_columns = [2023, 2024],
               heat_values = [[Fin 15, Fin 0], [Fin 0, Fin 7]]\<rparr>"
proof -
  have c1: "cell_salaries duplicated ''Bali'' 2023 = map Fin [10, 20]" by code_simp
  have c2: "cell_salaries duplicated ''Bali'' 2024 = []" by code_simp
  have h: "heat_data duplicated years_2023_2024
       = Some \<lparr>heat_index = [''Bali'', ''Riau''], heat_columns = [2023, 2024],
               heat_values = [[Fin 15, Fin 0], [Fin 0, Fin 7]]\<rparr>" by code_simp
  from heat_cell_is_mean_or_zero[of duplicated "''Bali''" 2023 "[10, 20]"] c1
  have m: "heat_cell duplicated ''Bali'' 2023 = Fin 15" by simp
  from heat_cell_is_mean_or_zero[of duplicated "''Bali''" 2024] c2
  have z: "heat_cell duplicated ''Bali'' 2024 = Fin 0" by simp
  from c1 c2 h m z show ?thesis by blast
qed

end
